theory Spec2Isabelle
  imports Main
begin

section \<open>The data-table column header (data-table/lib/data-table-column.ts)\<close>

text \<open>
  The component is a class with eight reactive properties, a query for the elements of
  its checkbox slot, one click listener installed by the constructor, three render
  helpers and five event handlers. It is modelled by explicit state passing: a record of
  the properties, extended by the parts of the environment the handlers read or write
  (the rendered template, the elements assigned to the checkbox slot, the change
  listeners registered on checkbox elements, the names of the properties changed since
  the last update, and the logs of dispatched events).
\<close>

subsection \<open>Properties\<close>

text \<open>The property \<open>type\<close> has the literal type \<open>'' | 'numeric' | 'checkbox'\<close>.\<close>

datatype column_type = Default | Numeric | Checkbox

text \<open>
  The field \<open>sorted\<close> of the source is \<open>sorted_col\<close> here, since \<open>sorted\<close> is a
  constant of the list library.
\<close>

record props =
  type :: column_type
  sortable :: bool
  sorted_col :: bool
  sortedDescending :: bool
  withSortButton :: bool
  filterable :: bool
  filterTextFieldLabel :: string
  filterCaseSensitive :: bool

subsection \<open>Elements and events\<close>

text \<open>
  A widget is either an element of the column's own template, named by its tag (each of
  \<open>md-checkbox\<close>, \<open>md-outlined-text-field\<close> and \<open>md-standard-icon-button-toggle\<close>
  occurs at most once there), or an element supplied by the owner, identified by a
  number. An element reference is the column itself (\<open>this\<close>) or a widget.
\<close>

datatype widget = Own string | Supplied nat

datatype node = This | Widget widget

text \<open>
  The detail of a dispatched event, with the fields in the order of the source's
  interfaces: \<open>{checked}\<close>, \<open>{field, text, column, caseSensitive}\<close>,
  \<open>{field, key, column}\<close> and \<open>{column, isDescending}\<close>.
\<close>

datatype detail =
    CellCheckedEventDetail bool
  | FilterTextFieldInputEventDetail node string node bool
  | FilterTextFieldKeyDownEventDetail node string node
  | SortButtonClickedEventDetail node bool

record CustomEvent =
  ev_type :: string
  ev_detail :: detail

text \<open>The one function the component registers with \<open>addEventListener\<close> on a checkbox.\<close>

datatype listener = OnCheckboxClicked

subsection \<open>Templates\<close>

text \<open>
  A template is a tree of elements; an attribute is bound to a string, to a boolean
  (\<open>?selected\<close>, \<open>?hidden\<close>) or to a listener (\<open>@change\<close> and the like). The render
  helpers return the empty string, \<open>Nothing\<close>, for an affordance that is left out.
\<close>

datatype handler =
    HandleCheckboxSlotChanged
  | HandleCheckboxClicked
  | HandleFilterTextFieldInput
  | HandleFilterTextFieldKeyDown
  | HandleSortButtonClicked
  | HandleStopPropagation

datatype binding = Str string | Flag bool | Listener handler

datatype html = Nothing | Text string | Element string "(string \<times> binding) list" "html list"

subsection \<open>The component state\<close>

text \<open>
  \<open>renderRoot\<close> is the template put in place by the last update,
  \<open>assignedToCheckboxSlot\<close> the elements the owner has placed in the slot named
  \<open>checkbox\<close>, \<open>changeListeners\<close> the listeners registered with
  \<open>addEventListener\<close> for \<open>change\<close> on each checkbox element, and
  \<open>changedProperties\<close> the keys of the map that the base class hands to \<open>updated\<close>.
  \<open>dispatched\<close> logs every call of \<open>dispatchEvent\<close> on the column together with
  the property values at that moment: dispatch is synchronous, so these are the values a
  subscriber reads from the column while it handles the event.
  \<open>dispatchedOnWidgets\<close> logs the events dispatched on a widget instead.
\<close>

record column = props +
  renderRoot :: "html list"
  assignedToCheckboxSlot :: "nat list"
  changeListeners :: "widget \<Rightarrow> listener list"
  changedProperties :: "string set"
  dispatched :: "(CustomEvent \<times> props) list"
  dispatchedOnWidgets :: "(widget \<times> CustomEvent) list"

subsection \<open>Rendering\<close>

definition renderCheckbox :: "column \<Rightarrow> html" where
  "renderCheckbox s =
     (if type s = Checkbox then
        Element ''slot''
          [(''name'', Str ''checkbox''), (''@slotchange'', Listener HandleCheckboxSlotChanged)]
          [Element ''md-checkbox''
             [(''class'', Str ''mdc-data-table__header-row-checkbox''),
              (''@change'', Listener HandleCheckboxClicked),
              (''aria-label'', Str ''Toggle all rows'')] []]
      else Nothing)"

definition renderFilterTextField :: "column \<Rightarrow> html" where
  "renderFilterTextField s =
     (if filterable s \<and> type s \<noteq> Checkbox then
        Element ''div'' [(''class'', Str ''mdc-data-table__header-cell-filter-wrapper'')]
          [Element ''slot'' [(''class'', Str ''mdc-data-table__header-cell-label'')] [],
           Element ''slot''
             [(''name'', Str ''filter-textfield''),
              (''class'', Str ''mdc-data-table__filter-textfield'')]
             [Element ''md-outlined-text-field''
                [(''label'', Str (filterTextFieldLabel s)),
                 (''style'', Str ''--md-outlined-field-container-height: 36px;''),
                 (''@input'', Listener HandleFilterTextFieldInput),
                 (''@keydown'', Listener HandleFilterTextFieldKeyDown)] []]]
      else Nothing)"

definition renderSlot :: "column \<Rightarrow> html" where
  "renderSlot s =
     (if sortable s then
        Element ''div'' [(''class'', Str ''mdc-data-table__header-cell-wrapper'')]
          [Element ''md-standard-icon-button-toggle''
             [(''?selected'', Flag (sortedDescending s)),
              (''@icon-button-toggle-change'', Listener HandleSortButtonClicked),
              (''@click'', Listener HandleStopPropagation),
              (''?hidden'', Flag (\<not> withSortButton s))]
             [Element ''slot'' [(''name'', Str ''sort-icon-on''), (''slot'', Str ''onIcon'')]
                [Element ''md-icon'' [(''slot'', Str ''onIcon'')] [Text ''arrow_downward'']],
              Element ''slot'' [(''name'', Str ''sort-icon-off''), (''slot'', Str ''offIcon'')]
                [Element ''md-icon'' [(''slot'', Str ''offIcon'')] [Text ''arrow_upward'']]],
           Text ''&nbsp;'',
           Element ''slot'' [(''class'', Str ''mdc-data-table__header-cell-label'')] []]
      else Element ''slot'' [] [])"

definition render :: "column \<Rightarrow> html list" where
  "render s = [renderCheckbox s, renderFilterTextField s, renderSlot s]"

text \<open>The tag names of all elements of a template, in document order.\<close>

fun tags :: "html \<Rightarrow> string list" where
  "tags Nothing = []"
| "tags (Text _) = []"
| "tags (Element name _ children) = name # concat (map tags children)"

text \<open>
  A fresh column, once its first update has run: the properties have the values of the
  field initialisers, the template is the one \<open>render\<close> gives for them (the bare
  default slot), nothing is assigned to the checkbox slot, no listener is registered on
  any checkbox, no property change is pending and nothing has been dispatched.
\<close>

definition initial :: column where
  "initial = \<lparr> type = Default, sortable = False, sorted_col = False,
     sortedDescending = False, withSortButton = False, filterable = False,
     filterTextFieldLabel = ''Filter'', filterCaseSensitive = False,
     renderRoot = [Nothing, Nothing, Element ''slot'' [] []],
     assignedToCheckboxSlot = [], changeListeners = (\<lambda>_. []),
     changedProperties = {}, dispatched = [], dispatchedOnWidgets = [] \<rparr>"

definition dispatchEvent :: "CustomEvent \<Rightarrow> column \<Rightarrow> column" where
  "dispatchEvent e s = s\<lparr>dispatched := dispatched s @ [(e, props.truncate s)]\<rparr>"

subsection \<open>Reactive property writes\<close>

text \<open>
  Every property is declared with the \<open>@property\<close> decorator of the base class and no
  \<open>hasChanged\<close> option, so a write stores the value and records the property's name
  for the next update exactly when the new value differs from the old one.
\<close>

definition requestUpdate :: "string \<Rightarrow> bool \<Rightarrow> column \<Rightarrow> column" where
  "requestUpdate name differs s =
     (if differs then s\<lparr>changedProperties := insert name (changedProperties s)\<rparr> else s)"

definition set_type :: "column_type \<Rightarrow> column \<Rightarrow> column" where
  "set_type v s = requestUpdate ''type'' (v \<noteq> type s) (s\<lparr>type := v\<rparr>)"

definition set_sortable :: "bool \<Rightarrow> column \<Rightarrow> column" where
  "set_sortable v s = requestUpdate ''sortable'' (v \<noteq> sortable s) (s\<lparr>sortable := v\<rparr>)"

definition set_sorted :: "bool \<Rightarrow> column \<Rightarrow> column" where
  "set_sorted v s = requestUpdate ''sorted'' (v \<noteq> sorted_col s) (s\<lparr>sorted_col := v\<rparr>)"

definition set_sortedDescending :: "bool \<Rightarrow> column \<Rightarrow> column" where
  "set_sortedDescending v s =
     requestUpdate ''sortedDescending'' (v \<noteq> sortedDescending s) (s\<lparr>sortedDescending := v\<rparr>)"

definition set_withSortButton :: "bool \<Rightarrow> column \<Rightarrow> column" where
  "set_withSortButton v s =
     requestUpdate ''withSortButton'' (v \<noteq> withSortButton s) (s\<lparr>withSortButton := v\<rparr>)"

definition set_filterable :: "bool \<Rightarrow> column \<Rightarrow> column" where
  "set_filterable v s = requestUpdate ''filterable'' (v \<noteq> filterable s) (s\<lparr>filterable := v\<rparr>)"

definition set_filterTextFieldLabel :: "string \<Rightarrow> column \<Rightarrow> column" where
  "set_filterTextFieldLabel v s =
     requestUpdate ''filterTextFieldLabel'' (v \<noteq> filterTextFieldLabel s)
       (s\<lparr>filterTextFieldLabel := v\<rparr>)"

definition set_filterCaseSensitive :: "bool \<Rightarrow> column \<Rightarrow> column" where
  "set_filterCaseSensitive v s =
     requestUpdate ''filterCaseSensitive'' (v \<noteq> filterCaseSensitive s)
       (s\<lparr>filterCaseSensitive := v\<rparr>)"

subsection \<open>The click listener of the constructor\<close>

text \<open>
  \<open>this.addEventListener('click', () => { this.withSortButton = !this.withSortButton; })\<close>
\<close>

definition onClick :: "column \<Rightarrow> column" where
  "onClick s = set_withSortButton (\<not> withSortButton s) s"

text \<open>
  A click starts at its target and bubbles to the column. The sort toggle carries the
  listener \<open>(e) => e.stopPropagation()\<close>; a click on any other part of the header
  reaches the column's listener directly.
\<close>

datatype click_target = HeaderBody | SortToggle

record PointerEvent =
  propagationStopped :: bool

definition stopPropagation :: "PointerEvent \<Rightarrow> PointerEvent" where
  "stopPropagation e = e\<lparr>propagationStopped := True\<rparr>"

definition click :: "click_target \<Rightarrow> column \<Rightarrow> column" where
  "click t s =
     (let e = \<lparr>propagationStopped = False\<rparr>;
          e' = (case t of SortToggle \<Rightarrow> stopPropagation e | HeaderBody \<Rightarrow> e)
      in if propagationStopped e' then s else onClick s)"

subsection \<open>Event handlers\<close>

text \<open>
  The handlers as the template binds them, with \<open>this\<close> the column.
  \<open>onCheckboxClicked\<close> reads \<open>checked\<close> of the event's target, which may be null or
  undefined (\<open>None\<close>), and applies \<open>?? false\<close>.
\<close>

definition onCheckboxClicked :: "bool option \<Rightarrow> column \<Rightarrow> column" where
  "onCheckboxClicked checked s =
     dispatchEvent \<lparr>ev_type = ''checked'',
       ev_detail = CellCheckedEventDetail (case checked of None \<Rightarrow> False | Some b \<Rightarrow> b)\<rparr> s"

text \<open>The filter handlers take the text field (the event's target) and its value or the key.\<close>

definition onFilterTextFieldInput :: "widget \<Rightarrow> string \<Rightarrow> column \<Rightarrow> column" where
  "onFilterTextFieldInput textfield val s =
     dispatchEvent \<lparr>ev_type = ''filter'',
       ev_detail = FilterTextFieldInputEventDetail (Widget textfield) val This
         (filterCaseSensitive s)\<rparr> s"

definition onFilterTextFieldKeyDown :: "widget \<Rightarrow> string \<Rightarrow> column \<Rightarrow> column" where
  "onFilterTextFieldKeyDown textfield key s =
     dispatchEvent \<lparr>ev_type = ''keydown'',
       ev_detail = FilterTextFieldKeyDownEventDetail (Widget textfield) key This\<rparr> s"

definition onSortButtonClicked :: "bool \<Rightarrow> column \<Rightarrow> column" where
  "onSortButtonClicked selected s =
     (let s1 = set_sortedDescending selected s
      in dispatchEvent \<lparr>ev_type = ''sort'',
           ev_detail = SortButtonClickedEventDetail This (sortedDescending s1)\<rparr> s1)"

text \<open>
  \<open>onCheckboxSlotChanged\<close> passes the method \<open>this.onCheckboxClicked\<close> to
  \<open>addEventListener\<close> as it is, not bound to the column. Run as such a listener,
  \<open>this\<close> is the checkbox the listener is registered on: the same body dispatches the
  event on that checkbox, and since the event does not bubble, the column's subscribers
  do not receive it.
\<close>

definition onCheckboxClicked_unbound :: "widget \<Rightarrow> bool option \<Rightarrow> column \<Rightarrow> column" where
  "onCheckboxClicked_unbound this checked s =
     s\<lparr>dispatchedOnWidgets := dispatchedOnWidgets s @
         [(this, \<lparr>ev_type = ''checked'',
             ev_detail = CellCheckedEventDetail
               (case checked of None \<Rightarrow> False | Some b \<Rightarrow> b)\<rparr>)]\<rparr>"

fun call_listener :: "listener \<Rightarrow> widget \<Rightarrow> bool option \<Rightarrow> column \<Rightarrow> column" where
  "call_listener OnCheckboxClicked this checked s = onCheckboxClicked_unbound this checked s"

subsection \<open>Queries on the rendered template\<close>

text \<open>The first element, in document order, whose tag and attributes satisfy \<open>p\<close>.\<close>

fun querySelector ::
  "(string \<Rightarrow> (string \<times> binding) list \<Rightarrow> bool) \<Rightarrow> html list \<Rightarrow> html option" where
  "querySelector p [] = None"
| "querySelector p (Nothing # rest) = querySelector p rest"
| "querySelector p (Text _ # rest) = querySelector p rest"
| "querySelector p (Element name attrs children # rest) =
     (if p name attrs then Some (Element name attrs children)
      else (case querySelector p children of
              Some e \<Rightarrow> Some e
            | None \<Rightarrow> querySelector p rest))"

text \<open>What an attribute of a widget of the column's own template is bound to.\<close>

definition bindingOf :: "widget \<Rightarrow> string \<Rightarrow> column \<Rightarrow> binding option" where
  "bindingOf w attr s =
     (case w of
        Supplied _ \<Rightarrow> None
      | Own tag \<Rightarrow>
          (case querySelector (\<lambda>name _. name = tag) (renderRoot s) of
             Some (Element _ attrs _) \<Rightarrow> map_of attrs attr
           | _ \<Rightarrow> None))"

definition checkboxSlot :: "column \<Rightarrow> html option" where
  "checkboxSlot s =
     querySelector (\<lambda>name attrs. name = ''slot'' \<and> map_of attrs ''name'' = Some (Str ''checkbox''))
       (renderRoot s)"

fun own_elements :: "html list \<Rightarrow> widget list" where
  "own_elements [] = []"
| "own_elements (Element name _ _ # rest) = Own name # own_elements rest"
| "own_elements (_ # rest) = own_elements rest"

text \<open>
  The query \<open>@queryAssignedElements({slot: 'checkbox', flatten: true})\<close>: without a
  rendered checkbox slot it yields nothing; with one it yields the elements assigned to
  the slot or, when none is assigned, the slot's fallback content.
\<close>

definition checkboxSlotElements :: "column \<Rightarrow> widget list" where
  "checkboxSlotElements s =
     (case checkboxSlot s of
        Some (Element _ _ fallback) \<Rightarrow>
          (if assignedToCheckboxSlot s = [] then own_elements fallback
           else map Supplied (assignedToCheckboxSlot s))
      | _ \<Rightarrow> [])"

subsection \<open>Checkbox wiring\<close>

text \<open>The getter \<open>checkbox\<close> is \<open>this.checkboxSlotElements?.[0]\<close>.\<close>

definition checkbox :: "column \<Rightarrow> widget option" where
  "checkbox s = (case checkboxSlotElements s of [] \<Rightarrow> None | c # _ \<Rightarrow> Some c)"

text \<open>
  \<open>addEventListener\<close> ignores a listener that is already registered for the same event;
  \<open>removeEventListener\<close> removes it if it is there.
\<close>

definition addEventListener :: "widget \<Rightarrow> listener \<Rightarrow> column \<Rightarrow> column" where
  "addEventListener el l s =
     (if l \<in> set (changeListeners s el) then s
      else s\<lparr>changeListeners := (changeListeners s)(el := changeListeners s el @ [l])\<rparr>)"

definition removeEventListener :: "widget \<Rightarrow> listener \<Rightarrow> column \<Rightarrow> column" where
  "removeEventListener el l s =
     s\<lparr>changeListeners := (changeListeners s)(el := removeAll l (changeListeners s el))\<rparr>"

definition onCheckboxSlotChanged :: "column \<Rightarrow> column" where
  "onCheckboxSlotChanged s =
     (let s1 = (case checkbox s of None \<Rightarrow> s
                | Some c \<Rightarrow> removeEventListener c OnCheckboxClicked s);
          s2 = (case checkbox s1 of None \<Rightarrow> s1
                | Some c \<Rightarrow> addEventListener c OnCheckboxClicked s1)
      in s2)"

text \<open>
  A change of what is assigned to the checkbox slot. The rendered slot, if there is one,
  then fires \<open>slotchange\<close>, which the template binds to \<open>onCheckboxSlotChanged\<close>.
\<close>

definition slotchange :: "nat list \<Rightarrow> column \<Rightarrow> column" where
  "slotchange els s =
     (let s1 = s\<lparr>assignedToCheckboxSlot := els\<rparr>
      in (case checkboxSlot s1 of
            Some (Element _ attrs _) \<Rightarrow>
              (if map_of attrs ''@slotchange'' = Some (Listener HandleCheckboxSlotChanged)
               then onCheckboxSlotChanged s1 else s1)
          | _ \<Rightarrow> s1))"

text \<open>
  A \<open>change\<close> event on the checkbox \<open>w\<close> reporting \<open>checked\<close>: the listener of the
  template runs if \<open>w\<close> is the rendered checkbox of the column's own, then every
  listener registered on \<open>w\<close> with \<open>addEventListener\<close>.
\<close>

definition change :: "widget \<Rightarrow> bool option \<Rightarrow> column \<Rightarrow> column" where
  "change w checked s =
     (let s1 = (if bindingOf w ''@change'' s = Some (Listener HandleCheckboxClicked)
                then onCheckboxClicked checked s else s)
      in fold (\<lambda>l. call_listener l w checked) (changeListeners s w) s1)"

subsection \<open>The update cycle\<close>

text \<open>\<open>updated\<close> of the source; \<open>super.updated\<close> does nothing.\<close>

definition updated :: "string set \<Rightarrow> column \<Rightarrow> column" where
  "updated changed s =
     (if ''sorted'' \<in> changed then set_withSortButton (sortable s \<and> sorted_col s) s else s)"

text \<open>
  Putting a template in place: an element of the column's own that the new template no
  longer holds is discarded, and with it the listeners registered on it.
\<close>

definition commit :: "html list \<Rightarrow> column \<Rightarrow> column" where
  "commit root s =
     s\<lparr>renderRoot := root,
       changeListeners := (\<lambda>w. case w of
           Own tag \<Rightarrow> (if tag \<in> set (concat (map tags root)) then changeListeners s w else [])
         | Supplied n \<Rightarrow> changeListeners s w)\<rparr>"

text \<open>
  One update of the base class: when properties have changed since the last update, the
  template is rendered from the current property values, the record of changes starts
  empty again and the old record is handed to \<open>updated\<close>, so a write made by
  \<open>updated\<close> belongs to the next update.
\<close>

definition performUpdate :: "column \<Rightarrow> column" where
  "performUpdate s =
     (if changedProperties s = {} then s
      else updated (changedProperties s) (commit (render s) (s\<lparr>changedProperties := {}\<rparr>)))"

subsection \<open>The component as a state machine\<close>

text \<open>
  What can happen to a column: its owner writes a property, a click arrives, a widget
  fires an event (which runs the handlers that listen on that widget, if any), the
  content of the checkbox slot changes, or the base class runs a pending update.
\<close>

datatype assignment =
    SetType column_type
  | SetSortable bool
  | SetSorted bool
  | SetSortedDescending bool
  | SetWithSortButton bool
  | SetFilterable bool
  | SetFilterTextFieldLabel string
  | SetFilterCaseSensitive bool

fun assign :: "assignment \<Rightarrow> column \<Rightarrow> column" where
  "assign (SetType v) s = set_type v s"
| "assign (SetSortable v) s = set_sortable v s"
| "assign (SetSorted v) s = set_sorted v s"
| "assign (SetSortedDescending v) s = set_sortedDescending v s"
| "assign (SetWithSortButton v) s = set_withSortButton v s"
| "assign (SetFilterable v) s = set_filterable v s"
| "assign (SetFilterTextFieldLabel v) s = set_filterTextFieldLabel v s"
| "assign (SetFilterCaseSensitive v) s = set_filterCaseSensitive v s"

datatype input =
    Assign assignment
  | Click click_target
  | ToggleChange bool
  | CheckboxChange widget "bool option"
  | FilterInput widget string
  | FilterKeyDown widget string
  | SlotChange "nat list"
  | Update

fun step :: "input \<Rightarrow> column \<Rightarrow> column" where
  "step (Assign a) s = assign a s"
| "step (Click t) s = click t s"
| "step (ToggleChange selected) s =
     (if bindingOf (Own ''md-standard-icon-button-toggle'') ''@icon-button-toggle-change'' s
           = Some (Listener HandleSortButtonClicked)
      then onSortButtonClicked selected s else s)"
| "step (CheckboxChange w checked) s = change w checked s"
| "step (FilterInput w val) s =
     (if bindingOf w ''@input'' s = Some (Listener HandleFilterTextFieldInput)
      then onFilterTextFieldInput w val s else s)"
| "step (FilterKeyDown w key) s =
     (if bindingOf w ''@keydown'' s = Some (Listener HandleFilterTextFieldKeyDown)
      then onFilterTextFieldKeyDown w key s else s)"
| "step (SlotChange els) s = slotchange els s"
| "step Update s = performUpdate s"

fun run :: "input list \<Rightarrow> column \<Rightarrow> column" where
  "run [] s = s"
| "run (i # is) s = run is (step i s)"

text \<open>The inputs that are no user or widget event: property writes and updates.\<close>

fun programmatic :: "input \<Rightarrow> bool" where
  "programmatic (Assign _) = True"
| "programmatic Update = True"
| "programmatic _ = False"

text \<open>
  The transitions that, in the state they are taken in, cannot make \<open>withSortButton\<close>
  true while \<open>sortable\<close> is false: all but a click on the header body of a column that
  is not sortable, a write of true to \<open>withSortButton\<close> of a column that is not
  sortable, and a write of false to \<open>sortable\<close> of a column whose \<open>withSortButton\<close>
  is true.
\<close>

fun keeps_sort_rule :: "input \<Rightarrow> column \<Rightarrow> bool" where
  "keeps_sort_rule (Click HeaderBody) s = sortable s"
| "keeps_sort_rule (Assign (SetWithSortButton v)) s = (sortable s \<or> \<not> v)"
| "keeps_sort_rule (Assign (SetSortable v)) s = (v \<or> \<not> withSortButton s)"
| "keeps_sort_rule _ s = True"

fun keeps_sort_rule_all :: "input list \<Rightarrow> column \<Rightarrow> bool" where
  "keeps_sort_rule_all [] s = True"
| "keeps_sort_rule_all (i # is) s = (keeps_sort_rule i s \<and> keeps_sort_rule_all is (step i s))"

section \<open>Basic facts\<close>

lemmas setters = requestUpdate_def set_type_def set_sortable_def set_sorted_def
  set_sortedDescending_def set_withSortButton_def set_filterable_def
  set_filterTextFieldLabel_def set_filterCaseSensitive_def

lemmas handlers = onCheckboxClicked_def onFilterTextFieldInput_def
  onFilterTextFieldKeyDown_def onSortButtonClicked_def dispatchEvent_def
  click_def stopPropagation_def onClick_def

lemmas queries = bindingOf_def checkboxSlot_def checkboxSlotElements_def checkbox_def

lemmas wiring = slotchange_def onCheckboxSlotChanged_def addEventListener_def
  removeEventListener_def change_def onCheckboxClicked_unbound_def

lemmas cycle = performUpdate_def updated_def commit_def render_def renderCheckbox_def
  renderFilterTextField_def renderSlot_def

lemma initial_rendered: "renderRoot initial = render initial"
  by (simp add: initial_def render_def renderCheckbox_def renderFilterTextField_def
        renderSlot_def)

lemma run_append: "run (xs @ ys) s = run ys (run xs s)"
  by (induction xs arbitrary: s) simp_all

text \<open>
  Listeners registered on a checkbox, and a change of the slot's content, touch neither
  the properties nor the record of changes nor the column's own event log.
\<close>

lemma call_listener_frame:
  "withSortButton (call_listener l w c s) = withSortButton s"
  "sortable (call_listener l w c s) = sortable s"
  "sorted_col (call_listener l w c s) = sorted_col s"
  "changedProperties (call_listener l w c s) = changedProperties s"
  "dispatched (call_listener l w c s) = dispatched s"
  by (cases l; simp add: onCheckboxClicked_unbound_def)+

lemma call_listeners_frame:
  "withSortButton (fold (\<lambda>l. call_listener l w c) ls s) = withSortButton s"
  "sortable (fold (\<lambda>l. call_listener l w c) ls s) = sortable s"
  "sorted_col (fold (\<lambda>l. call_listener l w c) ls s) = sorted_col s"
  "changedProperties (fold (\<lambda>l. call_listener l w c) ls s) = changedProperties s"
  "dispatched (fold (\<lambda>l. call_listener l w c) ls s) = dispatched s"
  by (induction ls arbitrary: s) (simp_all add: call_listener_frame)

lemma onCheckboxSlotChanged_frame:
  "withSortButton (onCheckboxSlotChanged s) = withSortButton s"
  "sortable (onCheckboxSlotChanged s) = sortable s"
  "sorted_col (onCheckboxSlotChanged s) = sorted_col s"
  "changedProperties (onCheckboxSlotChanged s) = changedProperties s"
  "dispatched (onCheckboxSlotChanged s) = dispatched s"
  by (simp_all add: onCheckboxSlotChanged_def addEventListener_def removeEventListener_def
        Let_def split: option.split)

lemma slotchange_frame:
  "withSortButton (slotchange els s) = withSortButton s"
  "sortable (slotchange els s) = sortable s"
  "sorted_col (slotchange els s) = sorted_col s"
  "changedProperties (slotchange els s) = changedProperties s"
  "dispatched (slotchange els s) = dispatched s"
  by (simp_all add: slotchange_def onCheckboxSlotChanged_frame Let_def
        split: option.split html.split)

lemma change_frame:
  "withSortButton (change w c s) = withSortButton s"
  "sortable (change w c s) = sortable s"
  "sorted_col (change w c s) = sorted_col s"
  "changedProperties (change w c s) = changedProperties s"
  by (simp_all add: change_def call_listeners_frame Let_def onCheckboxClicked_def
        dispatchEvent_def)

lemma change_dispatched:
  "dispatched (change w c s) =
     (if bindingOf w ''@change'' s = Some (Listener HandleCheckboxClicked)
      then dispatched (onCheckboxClicked c s) else dispatched s)"
  by (simp add: change_def call_listeners_frame Let_def)

text \<open>
  With \<open>flatten: true\<close> an emptied slot yields its fallback content: once the slotted
  checkbox is taken out again, the column's own checkbox is the effective one and is
  wired like a supplied one.
\<close>

lemma emptied_slot_wires_fallback:
  "checkbox (run [Assign (SetType Checkbox), Update, SlotChange [1], SlotChange []] initial)
     = Some (Own ''md-checkbox'')
   \<and> changeListeners
       (run [Assign (SetType Checkbox), Update, SlotChange [1], SlotChange []] initial)
       (Own ''md-checkbox'') = [OnCheckboxClicked]"
  by (simp add: initial_def setters cycle queries wiring Let_def)

lemma assign_dispatched: "dispatched (assign a s) = dispatched s"
  by (cases a) (simp_all add: setters)

lemma updated_dispatched: "dispatched (updated changed s) = dispatched s"
  by (simp add: updated_def setters)

lemma performUpdate_dispatched: "dispatched (performUpdate s) = dispatched s"
  by (simp add: performUpdate_def updated_dispatched commit_def)

lemma programmatic_step: "programmatic i \<Longrightarrow> dispatched (step i s) = dispatched s"
  by (cases i) (simp_all add: assign_dispatched performUpdate_dispatched)

text \<open>Until the next update, the record of changed properties only grows.\<close>

lemma assign_changed: "n \<in> changedProperties s \<Longrightarrow> n \<in> changedProperties (assign a s)"
  by (cases a) (simp_all add: setters)

lemma step_changed:
  "i \<noteq> Update \<Longrightarrow> n \<in> changedProperties s \<Longrightarrow> n \<in> changedProperties (step i s)"
  by (cases i)
    (simp_all add: assign_changed slotchange_frame change_frame handlers setters Let_def
       split: click_target.split)

lemma run_changed:
  "Update \<notin> set ins \<Longrightarrow> n \<in> changedProperties s \<Longrightarrow> n \<in> changedProperties (run ins s)"
  by (induction ins arbitrary: s) (auto simp: step_changed)

lemma performUpdate_sorted:
  assumes "''sorted'' \<in> changedProperties s"
  shows "withSortButton (performUpdate s) = (sortable s \<and> sorted_col s)"
    and "sortable (performUpdate s) = sortable s"
    and "sorted_col (performUpdate s) = sorted_col s"
  using assms by (auto simp: performUpdate_def updated_def commit_def setters)

lemma performUpdate_unsorted:
  "''sorted'' \<notin> changedProperties s \<Longrightarrow> withSortButton (performUpdate s) = withSortButton s"
  by (simp add: performUpdate_def updated_def commit_def)

lemma set_sorted_same: "set_sorted (sorted_col s) s = s"
  by (simp add: set_sorted_def requestUpdate_def)

text \<open>
  From a state where \<open>withSortButton\<close> implies \<open>sortable\<close>, a transition leads to
  such a state exactly when \<open>keeps_sort_rule\<close> admits it.
\<close>

lemma keeps_step:
  assumes "withSortButton s \<longrightarrow> sortable s"
  shows "(withSortButton (step i s) \<longrightarrow> sortable (step i s)) = keeps_sort_rule i s"
proof (cases i)
  case (Assign a)
  with assms show ?thesis by (cases a) (auto simp: setters)
next
  case (Click t)
  with assms show ?thesis by (cases t) (auto simp: handlers setters)
next
  case Update
  with assms show ?thesis by (auto simp: performUpdate_def updated_def commit_def setters)
qed (use assms in \<open>auto simp: slotchange_frame change_frame handlers setters Let_def\<close>)

lemma keeps_run:
  "keeps_sort_rule_all ins s \<Longrightarrow> withSortButton s \<longrightarrow> sortable s
     \<Longrightarrow> withSortButton (run ins s) \<longrightarrow> sortable (run ins s)"
proof (induction ins arbitrary: s)
  case Nil
  then show ?case by simp
next
  case (Cons i ins)
  from Cons.prems have "withSortButton (step i s) \<longrightarrow> sortable (step i s)"
    by (simp add: keeps_step)
  with Cons show ?case by simp
qed

section \<open>The sort button and the sortable flag\<close>

text \<open>
  C1, as stated: in every reachable state, \<open>withSortButton\<close> implies \<open>sortable\<close>.
  Three transitions break it on a column that is not sortable. The click listener
  negates \<open>withSortButton\<close> whatever \<open>sortable\<close> is, so one click on the header of a
  fresh column sets the button flag; the owner can write true to \<open>withSortButton\<close>;
  and the owner can write false to \<open>sortable\<close> of a sorted column that shows the
  button. The update that follows does not touch the flag in any of the three, since
  \<open>sorted\<close> has not changed.
\<close>

theorem sort_button_needs_sortable_counterexample:
  "withSortButton (run [Update, Click HeaderBody, Update] initial)
   \<and> \<not> sortable (run [Update, Click HeaderBody, Update] initial)
   \<and> withSortButton (run [Update, Assign (SetWithSortButton True), Update] initial)
   \<and> \<not> sortable (run [Update, Assign (SetWithSortButton True), Update] initial)
   \<and> withSortButton (run [Assign (SetSortable True), Assign (SetSorted True), Update,
        Assign (SetSortable False), Update] initial)
   \<and> \<not> sortable (run [Assign (SetSortable True), Assign (SetSorted True), Update,
        Assign (SetSortable False), Update] initial)"
  by (simp add: initial_def setters handlers cycle)

text \<open>
  C1, amended: \<open>withSortButton\<close> implies \<open>sortable\<close> in every state reached from a
  state where it holds by transitions none of which is, in the state it is taken in, a
  click on the header body of a column that is not sortable, a write of true to
  \<open>withSortButton\<close> of a column that is not sortable, or a write of false to
  \<open>sortable\<close> of a column whose \<open>withSortButton\<close> is true. These three are exactly
  the transitions that break it: from a state where the implication holds, it holds
  after a transition if and only if the transition is none of them.
\<close>

theorem sort_button_needs_sortable:
  "(withSortButton s \<longrightarrow> sortable s) \<Longrightarrow>
     (keeps_sort_rule_all ins s \<longrightarrow> (withSortButton (run ins s) \<longrightarrow> sortable (run ins s)))
     \<and> ((withSortButton (step i s) \<longrightarrow> sortable (step i s)) = keeps_sort_rule i s)"
  using keeps_run [of ins s] keeps_step [of s i] by blast

theorem sort_button_needs_sortable_witness:
  "\<not> withSortButton initial
   \<and> keeps_sort_rule_all
       [Assign (SetSortable True), Update, Click HeaderBody, Click HeaderBody,
        Click HeaderBody, Assign (SetWithSortButton True)] initial
   \<and> withSortButton (run [Assign (SetSortable True), Update, Click HeaderBody,
        Click HeaderBody, Click HeaderBody, Assign (SetWithSortButton True)] initial)
   \<and> sortable (run [Assign (SetSortable True), Update, Click HeaderBody,
        Click HeaderBody, Click HeaderBody, Assign (SetWithSortButton True)] initial)
   \<and> \<not> keeps_sort_rule (Click HeaderBody) initial
   \<and> withSortButton (step (Click HeaderBody) initial)
   \<and> \<not> sortable (step (Click HeaderBody) initial)"
  using sort_button_needs_sortable
    [of initial "[Assign (SetSortable True), Update, Click HeaderBody, Click HeaderBody,
          Click HeaderBody, Assign (SetWithSortButton True)]" "Click HeaderBody"]
  by (simp add: initial_def setters handlers cycle)

section \<open>The update after a write of sorted\<close>

text \<open>
  C2, as stated: after any write of \<open>sorted\<close>, also of the value it has, the update
  ends with \<open>withSortButton = (sortable \<and> sorted)\<close>. A write of the same value records
  no change, and \<open>updated\<close> recomputes only when \<open>sorted\<close> is among the changed
  properties: on a column that is neither sortable nor sorted and shows the button after
  a header click, writing false to \<open>sorted\<close> leaves the button flag set.
\<close>

theorem sorted_write_recomputes_counterexample:
  "withSortButton
     (run [Update, Click HeaderBody, Update, Assign (SetSorted False), Update] initial)
   \<and> \<not> (sortable
          (run [Update, Click HeaderBody, Update, Assign (SetSorted False), Update] initial)
        \<and> sorted_col
          (run [Update, Click HeaderBody, Update, Assign (SetSorted False), Update] initial))"
  by (simp add: initial_def setters handlers cycle)

text \<open>
  C2, amended: after a write to \<open>sorted\<close> of a value other than the one it has, whatever
  else is written or happens before the update runs, the update ends with
  \<open>withSortButton = (sortable \<and> sorted)\<close>, on the values the two properties have then.
  A write to \<open>sorted\<close> of the value it has changes nothing and records no change, and
  an update for which \<open>sorted\<close> is not recorded as changed leaves \<open>withSortButton\<close>
  as it is.
\<close>

theorem sorted_write_recomputes:
  "(v \<noteq> sorted_col s \<and> Update \<notin> set ins \<longrightarrow>
      withSortButton (run (Assign (SetSorted v) # ins @ [Update]) s) =
        (sortable (run (Assign (SetSorted v) # ins @ [Update]) s)
         \<and> sorted_col (run (Assign (SetSorted v) # ins @ [Update]) s)))
   \<and> step (Assign (SetSorted (sorted_col s))) s = s
   \<and> (''sorted'' \<notin> changedProperties s \<longrightarrow>
        withSortButton (performUpdate s) = withSortButton s)"
proof (intro conjI impI)
  assume a: "v \<noteq> sorted_col s \<and> Update \<notin> set ins"
  then have "''sorted'' \<in> changedProperties (set_sorted v s)"
    by (simp add: setters)
  with a have "''sorted'' \<in> changedProperties (run ins (set_sorted v s))"
    by (simp add: run_changed)
  then show "withSortButton (run (Assign (SetSorted v) # ins @ [Update]) s) =
      (sortable (run (Assign (SetSorted v) # ins @ [Update]) s)
       \<and> sorted_col (run (Assign (SetSorted v) # ins @ [Update]) s))"
    by (simp add: run_append performUpdate_sorted)
next
  show "step (Assign (SetSorted (sorted_col s))) s = s"
    by (simp add: set_sorted_same)
next
  assume "''sorted'' \<notin> changedProperties s"
  then show "withSortButton (performUpdate s) = withSortButton s"
    by (rule performUpdate_unsorted)
qed

theorem sorted_write_recomputes_witness:
  "True \<noteq> sorted_col initial
   \<and> Update \<notin> set [Assign (SetSortable True)]
   \<and> \<not> withSortButton (run [Assign (SetSorted True), Assign (SetSortable True)] initial)
   \<and> withSortButton
       (run (Assign (SetSorted True) # [Assign (SetSortable True)] @ [Update]) initial)
   \<and> ''sorted'' \<notin> changedProperties (step (Click HeaderBody) initial)
   \<and> withSortButton (performUpdate (step (Click HeaderBody) initial))
   \<and> \<not> sortable (performUpdate (step (Click HeaderBody) initial))"
  using sorted_write_recomputes [of True initial "[Assign (SetSortable True)]"]
    sorted_write_recomputes [of True "step (Click HeaderBody) initial" "[]"]
  by (simp add: initial_def setters handlers cycle)

section \<open>Notifications\<close>

text \<open>
  C3, as stated: the four notifications have the types \<open>checked-changed\<close>,
  \<open>filter-input\<close>, \<open>filter-keydown\<close> and \<open>sort-changed\<close>. A change of the rendered
  checkbox of a checkbox column and then, once the column is an ordinary, filterable and
  sortable one, an input and a keydown in the rendered filter field and a change of the
  sort toggle make the column dispatch four events of other types.
\<close>

theorem notification_names_counterexample:
  "map (ev_type \<circ> fst)
     (dispatched (run [Assign (SetType Checkbox), Update,
        CheckboxChange (Own ''md-checkbox'') (Some True),
        Assign (SetType Default), Assign (SetFilterable True), Assign (SetSortable True),
        Update,
        FilterInput (Own ''md-outlined-text-field'') ''abc'',
        FilterKeyDown (Own ''md-outlined-text-field'') ''a'',
        ToggleChange True] initial))
     = [''checked'', ''filter'', ''keydown'', ''sort'']
   \<and> [''checked'', ''filter'', ''keydown'', ''sort'']
     \<noteq> [''checked-changed'', ''filter-input'', ''filter-keydown'', ''sort-changed'']"
  by (simp add: initial_def handlers setters cycle queries wiring Let_def)

text \<open>
  C3, amended: the type strings of the four notifications are \<open>checked\<close>,
  \<open>filter\<close>, \<open>keydown\<close> and \<open>sort\<close>. The handler of a checkbox change dispatches
  an event of type \<open>checked\<close>, that of a filter-field input one of type \<open>filter\<close>,
  that of a filter-field keydown one of type \<open>keydown\<close> and that of a sort-toggle
  change one of type \<open>sort\<close>; and whatever the column dispatches when a checkbox
  changes, a filter field receives input or a key, or the sort toggle changes, has the
  corresponding type.
\<close>

theorem notification_names:
  "map (ev_type \<circ> fst) (dispatched (onCheckboxClicked c s)) =
     map (ev_type \<circ> fst) (dispatched s) @ [''checked'']
   \<and> map (ev_type \<circ> fst) (dispatched (onFilterTextFieldInput f v s)) =
     map (ev_type \<circ> fst) (dispatched s) @ [''filter'']
   \<and> map (ev_type \<circ> fst) (dispatched (onFilterTextFieldKeyDown f k s)) =
     map (ev_type \<circ> fst) (dispatched s) @ [''keydown'']
   \<and> map (ev_type \<circ> fst) (dispatched (onSortButtonClicked p s)) =
     map (ev_type \<circ> fst) (dispatched s) @ [''sort'']
   \<and> (dispatched (step (CheckboxChange w c) s) = dispatched s
      \<or> map (ev_type \<circ> fst) (dispatched (step (CheckboxChange w c) s)) =
          map (ev_type \<circ> fst) (dispatched s) @ [''checked''])
   \<and> (dispatched (step (FilterInput w v) s) = dispatched s
      \<or> map (ev_type \<circ> fst) (dispatched (step (FilterInput w v) s)) =
          map (ev_type \<circ> fst) (dispatched s) @ [''filter''])
   \<and> (dispatched (step (FilterKeyDown w k) s) = dispatched s
      \<or> map (ev_type \<circ> fst) (dispatched (step (FilterKeyDown w k) s)) =
          map (ev_type \<circ> fst) (dispatched s) @ [''keydown''])
   \<and> (dispatched (step (ToggleChange p) s) = dispatched s
      \<or> map (ev_type \<circ> fst) (dispatched (step (ToggleChange p) s)) =
          map (ev_type \<circ> fst) (dispatched s) @ [''sort''])"
  by (simp add: handlers setters change_dispatched Let_def)

text \<open>
  C7: a change of the sort toggle to the pressed value \<open>p\<close> sets \<open>sortedDescending\<close>
  to \<open>p\<close> and then dispatches exactly one event, with the detail
  \<open>{column: this, isDescending: p}\<close>; the property values a subscriber reads at that
  moment are those of the resulting state, where \<open>sortedDescending\<close> is \<open>p\<close>.
\<close>

theorem sort_notification_consistent:
  "sortedDescending (onSortButtonClicked p s) = p
   \<and> dispatched (onSortButtonClicked p s) =
       dispatched s @
         [(\<lparr>ev_type = ''sort'', ev_detail = SortButtonClickedEventDetail This p\<rparr>,
           props.truncate (onSortButtonClicked p s))]"
  by (simp add: handlers setters Let_def props.truncate_def)

text \<open>
  C8: property writes and updates dispatch nothing. Whatever is written to \<open>sorted\<close> or
  to any other property, and however many updates run, the log of dispatched events stays
  as it was.
\<close>

theorem no_notification_from_assignment:
  "list_all programmatic ins \<Longrightarrow> dispatched (run ins s) = dispatched s"
  by (induction ins arbitrary: s) (simp_all add: programmatic_step)

theorem no_notification_from_assignment_witness:
  "list_all programmatic [Assign (SetSorted True), Update, Update]
   \<and> dispatched (run [Assign (SetSorted True), Update, Update] initial) = []"
  using no_notification_from_assignment [of "[Assign (SetSorted True), Update, Update]" initial]
  by (simp add: initial_def)


section \<open>Rendering\<close>

text \<open>
  C4: the checkbox part of the template is non-empty, and holds the checkbox, exactly
  when \<open>type\<close> is \<open>checkbox\<close>; the filter part is non-empty, and holds the text field,
  exactly when the column is filterable and \<open>type\<close> is not \<open>checkbox\<close>; the sort toggle
  is in the template exactly when the column is sortable, and the last part is the bare
  default slot exactly when it is not.
\<close>

theorem render_selects_affordances:
  "(renderCheckbox s \<noteq> Nothing) = (type s = Checkbox)
   \<and> (''md-checkbox'' \<in> set (concat (map tags (render s)))) = (type s = Checkbox)
   \<and> (renderFilterTextField s \<noteq> Nothing) = (filterable s \<and> type s \<noteq> Checkbox)
   \<and> (''md-outlined-text-field'' \<in> set (concat (map tags (render s))))
       = (filterable s \<and> type s \<noteq> Checkbox)
   \<and> (''md-standard-icon-button-toggle'' \<in> set (concat (map tags (render s)))) = sortable s
   \<and> (renderSlot s = Element ''slot'' [] []) = (\<not> sortable s)"
  by (simp add: render_def renderCheckbox_def renderFilterTextField_def renderSlot_def)

section \<open>Clicks\<close>


text \<open>
  C10: the click listener negates \<open>withSortButton\<close>, leaves the other seven properties,
  the slot content and the checkbox listeners as they are, and dispatches nothing.
\<close>

theorem onClick_frame:
  "withSortButton (onClick s) = (\<not> withSortButton s)
   \<and> type (onClick s) = type s
   \<and> sortable (onClick s) = sortable s
   \<and> sorted_col (onClick s) = sorted_col s
   \<and> sortedDescending (onClick s) = sortedDescending s
   \<and> filterable (onClick s) = filterable s
   \<and> filterCaseSensitive (onClick s) = filterCaseSensitive s
   \<and> filterTextFieldLabel (onClick s) = filterTextFieldLabel s
   \<and> checkboxSlotElements (onClick s) = checkboxSlotElements s
   \<and> changeListeners (onClick s) = changeListeners s
   \<and> dispatched (onClick s) = dispatched s"
  by (simp add: onClick_def set_withSortButton_def requestUpdate_def
        checkboxSlotElements_def checkboxSlot_def split: option.split html.split)

section \<open>Checkbox wiring\<close>

text \<open>
  C6: on a change of the slot's content the listener is to be removed from the former
  effective checkbox, so that the old element produces no notification any more. The
  handler reads \<open>checkbox\<close> after the content has changed, so its
  \<open>removeEventListener\<close> goes to the new element: on a rendered checkbox column
  whose slotted checkbox 1 is replaced by checkbox 2, checkbox 2 is the effective
  checkbox and carries the listener once, checkbox 1 still carries it, and a change of
  checkbox 1 still runs it (the listener, not bound to the column, dispatches on
  checkbox 1).
\<close>

theorem checkbox_rewiring_leaves_old_listener:
  "checkbox (run [Assign (SetType Checkbox), Update, SlotChange [1], SlotChange [2]] initial)
     = Some (Supplied 2)
   \<and> changeListeners
       (run [Assign (SetType Checkbox), Update, SlotChange [1], SlotChange [2]] initial)
       (Supplied 2) = [OnCheckboxClicked]
   \<and> changeListeners
       (run [Assign (SetType Checkbox), Update, SlotChange [1], SlotChange [2]] initial)
       (Supplied 1) = [OnCheckboxClicked]
   \<and> dispatchedOnWidgets
       (run [Assign (SetType Checkbox), Update, SlotChange [1], SlotChange [2],
             CheckboxChange (Supplied 1) (Some True)] initial)
     = [(Supplied 1,
         \<lparr>ev_type = ''checked'', ev_detail = CellCheckedEventDetail True\<rparr>)]"
  by (simp add: initial_def setters cycle queries wiring Let_def)

end
